theory Spec2Isabelle
  imports Main "HOL-Library.Sublist"
begin

section \<open>Values returned by the upstream service\<close>

text \<open>
  \<^verbatim>\<open>response.json()\<close> yields a dynamically typed Python value. The constructors below
  are the values a JSON document decodes to: \<^verbatim>\<open>None\<close>, \<^verbatim>\<open>True\<close>/\<^verbatim>\<open>False\<close>, an
  integer, a \<^verbatim>\<open>str\<close>, a \<^verbatim>\<open>list\<close> and a \<^verbatim>\<open>dict\<close>. A \<^verbatim>\<open>dict\<close> is kept as the list of
  its items in insertion order; every key occurs once, as in the decoded \<^verbatim>\<open>dict\<close>.
  Floating-point literals are outside this model. A \<^verbatim>\<open>str\<close> is kept as the list of
  its UTF-8 bytes: the code tests the strings of a response for emptiness, compares
  them and concatenates them, which does not depend on the encoding.
\<close>

datatype json =
    JNull
  | JBool bool
  | JNum int
  | JStr string
  | JArr "json list"
  | JObj "(string \<times> json) list"

text \<open>The exceptions of the Python code that no handler of \<^verbatim>\<open>main.py\<close> catches.\<close>

datatype py_error =
  IndexError | KeyError | AttributeError | TypeError | ValueError | RecursionError

type_synonym 'a result = "py_error + 'a"

definition then_res :: "'a result \<Rightarrow> ('a \<Rightarrow> 'b result) \<Rightarrow> 'b result" where
  "then_res m f = (case m of Inl e \<Rightarrow> Inl e | Inr x \<Rightarrow> f x)"

text \<open>Python truth value testing: \<^verbatim>\<open>if v:\<close>.\<close>

fun truthy :: "json \<Rightarrow> bool" where
  "truthy JNull = False"
| "truthy (JBool b) = b"
| "truthy (JNum n) = (n \<noteq> 0)"
| "truthy (JStr s) = (s \<noteq> [])"
| "truthy (JArr xs) = (xs \<noteq> [])"
| "truthy (JObj kvs) = (kvs \<noteq> [])"

text \<open>\<^verbatim>\<open>v.get(key, default)\<close>: only a \<^verbatim>\<open>dict\<close> has the method \<^verbatim>\<open>get\<close>.\<close>

fun dict_get :: "json \<Rightarrow> string \<Rightarrow> json \<Rightarrow> json result" where
  "dict_get (JObj kvs) k d = Inr (case map_of kvs k of None \<Rightarrow> d | Some v \<Rightarrow> v)"
| "dict_get _ k d = Inl AttributeError"

text \<open>
  \<^verbatim>\<open>v[0]\<close>: the first element of a list, the first character of a string (a string
  again, on which the code goes on to call \<^verbatim>\<open>get\<close>, which fails whatever the character
  is); \<^verbatim>\<open>IndexError\<close> when empty. A decoded \<^verbatim>\<open>dict\<close> has string keys only, so \<^verbatim>\<open>0\<close> is
  never a key of it. The other values are not subscriptable.
\<close>

fun subscript0 :: "json \<Rightarrow> json result" where
  "subscript0 (JArr []) = Inl IndexError"
| "subscript0 (JArr (x # xs)) = Inr x"
| "subscript0 (JStr []) = Inl IndexError"
| "subscript0 (JStr (c # cs)) = Inr (JStr [c])"
| "subscript0 (JObj kvs) = Inl KeyError"
| "subscript0 _ = Inl TypeError"

text \<open>\<^verbatim>\<open>v[key]\<close> with a string key: \<^verbatim>\<open>KeyError\<close> on a \<^verbatim>\<open>dict\<close> without the key.\<close>

fun subscript_key :: "json \<Rightarrow> string \<Rightarrow> json result" where
  "subscript_key (JObj kvs) k = (case map_of kvs k of None \<Rightarrow> Inl KeyError | Some v \<Rightarrow> Inr v)"
| "subscript_key _ k = Inl TypeError"

text \<open>
  \<^verbatim>\<open>for source in v\<close>: a list yields its elements, a string its characters, a \<^verbatim>\<open>dict\<close>
  its keys; the other values are not iterable.
\<close>

fun py_iter :: "json \<Rightarrow> json list result" where
  "py_iter (JArr xs) = Inr xs"
| "py_iter (JStr s) = Inr (map (\<lambda>c. JStr [c]) s)"
| "py_iter (JObj kvs) = Inr (map (\<lambda>kv. JStr (fst kv)) kvs)"
| "py_iter _ = Inl TypeError"

text \<open>
  Membership in a Python \<^verbatim>\<open>set\<close> goes through \<^verbatim>\<open>hash\<close> and \<^verbatim>\<open>==\<close>: a list and a \<^verbatim>\<open>dict\<close>
  are unhashable, and \<^verbatim>\<open>True == 1\<close>, \<^verbatim>\<open>False == 0\<close>. \<open>hash_key\<close> maps a value to the
  representative of its equality class, or fails as \<^verbatim>\<open>hash\<close> does.
\<close>

fun hash_key :: "json \<Rightarrow> json result" where
  "hash_key (JArr xs) = Inl TypeError"
| "hash_key (JObj kvs) = Inl TypeError"
| "hash_key (JBool b) = Inr (JNum (if b then 1 else 0))"
| "hash_key v = Inr v"

text \<open>\<^verbatim>\<open>text + citations\<close> where \<^verbatim>\<open>citations\<close> is a \<^verbatim>\<open>str\<close>: defined on a \<^verbatim>\<open>str\<close> only.\<close>

fun py_add_str :: "json \<Rightarrow> string \<Rightarrow> string result" where
  "py_add_str (JStr t) c = Inr (t @ c)"
| "py_add_str _ c = Inl TypeError"

section \<open>Configuration and constants\<close>

definition MODEL_NAME :: string where
  "MODEL_NAME = ''gemini-2.5-flash-preview-09-2025''"

definition initial_greeting :: string where
  "initial_greeting = [CHR 0xF0, CHR 0x9F, CHR 0x91, CHR 0x8B] @
     '' Hi! I'm your **Hypertension Assistant**. I use advanced AI to answer your questions about high blood pressure. Ask away!''"

definition api_fail :: string where
  "api_fail = [CHR 0xE2, CHR 0x9A, CHR 0xA0, CHR 0xEF, CHR 0xB8, CHR 0x8F] @
     '' I'm sorry, I cannot connect to the AI service right now. Please try again later. This application requires a successful connection to the Gemini API.''"

definition placeholder_fail :: string where
  "placeholder_fail = ''I'm sorry, the AI could not generate a clear answer to that query. Please rephrase your question or try a suggestion below.''"

definition suggestions :: "string list" where
  "suggestions =
    [''What is the optimal diet for reducing blood pressure?'',
     ''What are the long-term effects of untreated hypertension?'',
     ''Can stress significantly raise my blood pressure reading?'',
     ''Explain the difference between systolic and diastolic pressure.'']"

definition max_retries :: nat where
  "max_retries = 3"

definition missing_key_message :: string where
  "missing_key_message = ''API Key is missing. Please ensure it is set up correctly in your environment (Canvas or local secrets).''"

definition connect_fail_message :: string where
  "connect_fail_message = ''Failed to connect to Gemini API after 3 attempts.''"

definition sources_header :: string where
  "sources_header = ''\<newline>\<newline>---\<newline>**Sources:**\<newline>''"

definition api_url :: "string \<Rightarrow> string" where
  "api_url key =
     ''https://generativelanguage.googleapis.com/v1beta/models/'' @ MODEL_NAME @
     '':generateContent?key='' @ key"

section \<open>The world around the fetcher\<close>

text \<open>
  What \<^verbatim>\<open>response.json()\<close> does with the body of a response: it raises
  \<^verbatim>\<open>JSONDecodeError\<close> when the body is not a JSON document; it raises another exception
  on some bodies, a \<^verbatim>\<open>ValueError\<close> on an integer literal of more digits than the
  interpreter converts, a \<^verbatim>\<open>RecursionError\<close> on a nesting deeper than the decoder
  follows; or it returns the decoded value.
\<close>

datatype decoding =
    JSONDecodeError
  | DecodingRaises py_error
  | Decoded json

text \<open>
  What one \<^verbatim>\<open>requests.post\<close> followed by \<^verbatim>\<open>raise_for_status\<close> and \<^verbatim>\<open>response.json()\<close>
  can meet: the call itself raises a \<^verbatim>\<open>RequestException\<close> (connection error, timeout),
  or a response arrives with a status code and a body, given by what
  \<^verbatim>\<open>response.json()\<close> does with it.
\<close>

datatype http_outcome =
    RequestException
  | Response nat decoding

text \<open>
  The environment of a call: the configured key, the upstream service as the outcome
  of the request of each attempt (index 0, 1, 2), and Python's \<^verbatim>\<open>str()\<close> conversion of a
  value that is not a \<^verbatim>\<open>str\<close>, which an f-string applies (a builtin of the interpreter,
  taken as a parameter).
\<close>

record env =
  API_KEY :: string
  transport :: "nat \<Rightarrow> http_outcome"
  py_str :: "json \<Rightarrow> string"

text \<open>The observable effects of a call, in the order they happen.\<close>

datatype event =
    Post string string
  | Sleep nat
  | StError string

fun is_post :: "event \<Rightarrow> bool" where
  "is_post (Post url query) = True"
| "is_post _ = False"

fun is_sleep :: "event \<Rightarrow> bool" where
  "is_sleep (Sleep n) = True"
| "is_sleep _ = False"

definition network_calls :: "event list \<Rightarrow> nat" where
  "network_calls evs = length (filter is_post evs)"

definition waits :: "event list \<Rightarrow> event list" where
  "waits evs = filter is_sleep evs"

section \<open>\<^verbatim>\<open>get_gemini_response\<close>\<close>

text \<open>
  \<^verbatim>\<open>f"{v}"\<close>: a \<^verbatim>\<open>str\<close> is inserted as it is, any other value through the
  conversion \<open>str\<close>, the field \<open>py_str\<close> of the environment.
\<close>

fun format_value :: "(json \<Rightarrow> string) \<Rightarrow> json \<Rightarrow> string" where
  "format_value str (JStr s) = s"
| "format_value str v = str v"

text \<open>Line 94: \<^verbatim>\<open>f"- [{title}]({uri})\n"\<close>.\<close>

definition cite_line :: "(json \<Rightarrow> string) \<Rightarrow> json \<Rightarrow> json \<Rightarrow> string" where
  "cite_line str title uri =
     ''- ['' @ format_value str title @ '']('' @ format_value str uri @ '')\<newline>''"

text \<open>Lines 90 and 91: \<^verbatim>\<open>source.get('web', {}).get(key, default)\<close>.\<close>

definition web_field :: "json \<Rightarrow> string \<Rightarrow> json \<Rightarrow> json result" where
  "web_field source key dflt =
     then_res (dict_get source ''web'' (JObj [])) (\<lambda>web. dict_get web key dflt)"

text \<open>
  Lines 89 to 97: the loop over the attributions, with the string \<^verbatim>\<open>citations\<close> built so
  far and the set \<^verbatim>\<open>unique_uris\<close>. The \<^verbatim>\<open>break\<close> ends the loop with the string as it is.
\<close>

fun cite_loop ::
  "(json \<Rightarrow> string) \<Rightarrow> json list \<Rightarrow> string \<Rightarrow> json set \<Rightarrow> string result" where
  "cite_loop str [] citations unique_uris = Inr citations"
| "cite_loop str (source # rest) citations unique_uris =
     then_res (web_field source ''uri'' JNull) (\<lambda>uri.
     then_res (web_field source ''title'' (JStr ''Link'')) (\<lambda>title.
       if truthy uri then
         then_res (hash_key uri) (\<lambda>k.
           if k \<notin> unique_uris then
             (if card (insert k unique_uris) \<ge> 3
              then Inr (citations @ cite_line str title uri)
              else cite_loop str rest (citations @ cite_line str title uri) (insert k unique_uris))
           else cite_loop str rest citations unique_uris)
       else cite_loop str rest citations unique_uris))"

text \<open>Lines 84 to 97: the citation block appended to the answer.\<close>

definition build_citations :: "(json \<Rightarrow> string) \<Rightarrow> json \<Rightarrow> string result" where
  "build_citations str sources =
     (if truthy sources
      then then_res (py_iter sources) (\<lambda>xs. cite_loop str xs sources_header {})
      else Inr [])"

text \<open>Lines 79 to 82: the grounding attributions of the candidate, \<^verbatim>\<open>[]\<close> without any.\<close>

definition grounding_sources :: "json \<Rightarrow> json result" where
  "grounding_sources candidate =
     then_res (dict_get candidate ''groundingMetadata'' JNull) (\<lambda>grounding_metadata.
       if truthy grounding_metadata then
         then_res (dict_get grounding_metadata ''groundingAttributions'' JNull) (\<lambda>attributions.
           if truthy attributions
           then subscript_key grounding_metadata ''groundingAttributions''
           else Inr (JArr []))
       else Inr (JArr []))"

text \<open>Line 73: \<^verbatim>\<open>result.get('candidates', [{}])[0]\<close>.\<close>

definition candidate_of :: "json \<Rightarrow> json result" where
  "candidate_of result =
     then_res (dict_get result ''candidates'' (JArr [JObj []])) subscript0"

text \<open>
  Lines 75 and 76: the condition
  \<^verbatim>\<open>candidate and candidate.get('content') and candidate['content']['parts']\<close>, evaluated
  from left to right, and the text of the first part; \<open>None\<close> when the condition is
  false. Where \<^verbatim>\<open>candidate.get('content')\<close> is true, \<^verbatim>\<open>candidate['content']\<close> is that same
  value, and line 76 reads again what line 75 has read.
\<close>

definition answer_text :: "json \<Rightarrow> json option result" where
  "answer_text candidate =
     (if \<not> truthy candidate then Inr None else
      then_res (dict_get candidate ''content'' JNull) (\<lambda>content.
        if \<not> truthy content then Inr None else
        then_res (subscript_key content ''parts'') (\<lambda>parts.
          if \<not> truthy parts then Inr None else
          then_res (subscript0 parts) (\<lambda>part.
          then_res (dict_get part ''text'' (JStr placeholder_fail)) (\<lambda>text.
            Inr (Some text))))))"

text \<open>
  Lines 72 to 99, the body of the \<^verbatim>\<open>try\<close> once the response is decoded:
  \<open>Inr (Some s)\<close> is \<^verbatim>\<open>return s\<close>, \<open>Inr None\<close> is the end of the block without a
  \<^verbatim>\<open>return\<close> (the condition of line 75 is false), \<open>Inl err\<close> an exception that the
  \<^verbatim>\<open>except\<close> clause does not name.
\<close>

definition extract_answer :: "(json \<Rightarrow> string) \<Rightarrow> json \<Rightarrow> string option result" where
  "extract_answer str result =
     then_res (candidate_of result) (\<lambda>candidate.
     then_res (answer_text candidate) (\<lambda>found.
       case found of
         None \<Rightarrow> Inr None
       | Some text \<Rightarrow>
           then_res (grounding_sources candidate) (\<lambda>sources.
           then_res (build_citations str sources) (\<lambda>citations.
           then_res (py_add_str text citations) (\<lambda>answer. Inr (Some answer))))))"

text \<open>What one iteration of the loop of line 67 ends with.\<close>

datatype step = Return string | Raise py_error | Continue

text \<open>
  Lines 101 to 109, the handler of \<^verbatim>\<open>RequestException\<close> and \<^verbatim>\<open>JSONDecodeError\<close>: sleep
  and go on, or give up on the last attempt.
\<close>

definition on_exception :: "nat \<Rightarrow> step \<times> event list" where
  "on_exception attempt =
     (if attempt < max_retries - 1
      then (Continue, [Sleep (2 ^ attempt)])
      else (Return api_fail, [StError connect_fail_message]))"

text \<open>
  \<^verbatim>\<open>raise_for_status\<close> raises an \<^verbatim>\<open>HTTPError\<close>, a \<^verbatim>\<open>RequestException\<close>, for the status
  codes 400 to 599.
\<close>

definition raise_for_status :: "nat \<Rightarrow> bool" where
  "raise_for_status status = (400 \<le> status \<and> status < 600)"

text \<open>
  Lines 68 to 109: one iteration of the loop. The handler of line 101 takes the
  \<^verbatim>\<open>RequestException\<close> of the request or of \<^verbatim>\<open>raise_for_status\<close> and the
  \<^verbatim>\<open>JSONDecodeError\<close> of the decoding; every other exception of the \<^verbatim>\<open>try\<close> block leaves
  the function.
\<close>

definition iteration :: "env \<Rightarrow> string \<Rightarrow> nat \<Rightarrow> step \<times> event list" where
  "iteration e query attempt =
     (let (st, evs) =
        (case transport e attempt of
           RequestException \<Rightarrow> on_exception attempt
         | Response status body \<Rightarrow>
             if raise_for_status status then on_exception attempt
             else (case body of
                     JSONDecodeError \<Rightarrow> on_exception attempt
                   | DecodingRaises err \<Rightarrow> (Raise err, [])
                   | Decoded result \<Rightarrow>
                       (case extract_answer (py_str e) result of
                          Inl err \<Rightarrow> (Raise err, [])
                        | Inr None \<Rightarrow> (Continue, [])
                        | Inr (Some answer) \<Rightarrow> (Return answer, []))))
      in (st, Post (api_url (API_KEY e)) query # evs))"

text \<open>
  Lines 67 to 111: \<^verbatim>\<open>for attempt in range(max_retries)\<close> over the remaining values of
  the range, and the \<^verbatim>\<open>return\<close> of line 111 after the loop.
\<close>

fun for_attempts :: "env \<Rightarrow> string \<Rightarrow> nat list \<Rightarrow> string result \<times> event list" where
  "for_attempts e query [] = (Inr placeholder_fail, [])"
| "for_attempts e query (attempt # rest) =
     (case iteration e query attempt of
        (Return answer, evs) \<Rightarrow> (Inr answer, evs)
      | (Raise err, evs) \<Rightarrow> (Inl err, evs)
      | (Continue, evs) \<Rightarrow>
          (case for_attempts e query rest of (r, evs') \<Rightarrow> (r, evs @ evs')))"

text \<open>
  Lines 37 to 111. The result is the returned string, or the exception that leaves the
  function, with the effects up to that point.
\<close>

definition get_gemini_response :: "env \<Rightarrow> string \<Rightarrow> string result \<times> event list" where
  "get_gemini_response e query =
     (if API_KEY e = []
      then (Inr api_fail, [StError missing_key_message])
      else for_attempts e query [0..<max_retries])"

section \<open>The chat session\<close>

text \<open>An entry of \<^verbatim>\<open>st.session_state.messages\<close>: \<^verbatim>\<open>{"role": ..., "text": ...}\<close>.\<close>

record message =
  msg_role :: string
  msg_text :: string

text \<open>
  Lines 134 and 135: the value of \<^verbatim>\<open>st.session_state.messages\<close> after the
  initialisation, from its value before (\<open>None\<close>: the session state has no such key).
\<close>

definition init_messages :: "message list option \<Rightarrow> message list" where
  "init_messages stored =
     (case stored of
        None \<Rightarrow> [\<lparr>msg_role = ''bot'', msg_text = initial_greeting\<rparr>]
      | Some msgs \<Rightarrow> msgs)"

text \<open>
  Lines 147 to 159. The result is the list of messages after the call and the effects of
  the call, with the exception that leaves \<^verbatim>\<open>process_query\<close> if there is one.
\<close>

definition process_query ::
  "env \<Rightarrow> string \<Rightarrow> message list \<Rightarrow> unit result \<times> message list \<times> event list" where
  "process_query e user_query msgs =
     (if user_query = [] then (Inr (), msgs, [])
      else
        (let msgs1 = msgs @ [\<lparr>msg_role = ''user'', msg_text = user_query\<rparr>]
         in case get_gemini_response e user_query of
              (Inl err, evs) \<Rightarrow> (Inl err, msgs1, evs)
            | (Inr response, evs) \<Rightarrow>
                (Inr (), msgs1 @ [\<lparr>msg_role = ''bot'', msg_text = response\<rparr>], evs)))"

text \<open>
  One run of \<^verbatim>\<open>app\<close> (lines 116 to 184) on the stored messages: the initialisation,
  then \<^verbatim>\<open>process_query\<close> on the query of this run, if the form was submitted or a
  suggestion was clicked. The result is the stored list after the run.
\<close>

definition app :: "env \<Rightarrow> string option \<Rightarrow> message list option \<Rightarrow> message list option" where
  "app e submitted stored =
     (let msgs = init_messages stored
      in case submitted of
           None \<Rightarrow> Some msgs
         | Some user_query \<Rightarrow> Some (fst (snd (process_query e user_query msgs))))"

text \<open>A session: the runs of \<^verbatim>\<open>app\<close> one after the other, from a fresh session state.\<close>

definition session :: "(env \<times> string option) list \<Rightarrow> message list option" where
  "session runs = foldl (\<lambda>stored r. app (fst r) (snd r) stored) None runs"

section \<open>Notions used by the properties\<close>

text \<open>
  An attempt fails when its \<^verbatim>\<open>try\<close> block raises an exception that the \<^verbatim>\<open>except\<close> clause
  of line 101 names: the request itself fails, the status is an error status, or the
  decoding of the body raises \<^verbatim>\<open>JSONDecodeError\<close>.
\<close>

fun attempt_fails :: "http_outcome \<Rightarrow> bool" where
  "attempt_fails RequestException = True"
| "attempt_fails (Response status body) = (raise_for_status status \<or> body = JSONDecodeError)"

text \<open>
  A service that is down: no connection, then a 503 whose body is not a JSON document,
  then no connection.
\<close>

definition env_down :: env where
  "env_down =
     \<lparr>API_KEY = ''k'',
      transport = (\<lambda>attempt. if attempt = 1 then Response 503 JSONDecodeError else RequestException),
      py_str = (\<lambda>v. [])\<rparr>"

text \<open>A service that answers, and no key configured.\<close>

definition env_no_key :: env where
  "env_no_key =
     \<lparr>API_KEY = [],
      transport = (\<lambda>attempt. Response 200 (Decoded (JObj [(''candidates'',
         JArr [JObj [(''content'', JObj [(''parts'', JArr [JObj [(''text'', JStr ''A'')]])])]])]))),
      py_str = (\<lambda>v. [])\<rparr>"

text \<open>A service whose bodies are not JSON documents.\<close>

definition env_garbled :: env where
  "env_garbled =
     \<lparr>API_KEY = ''k'', transport = (\<lambda>attempt. Response 200 JSONDecodeError), py_str = (\<lambda>v. [])\<rparr>"

text \<open>A service that answers \<^verbatim>\<open>{}\<close> with status 200.\<close>

definition env_shapeless :: env where
  "env_shapeless =
     \<lparr>API_KEY = ''k'',
      transport = (\<lambda>attempt. Response 200 (Decoded (JObj []))),
      py_str = (\<lambda>v. [])\<rparr>"

text \<open>A service that answers \<^verbatim>\<open>{"candidates": []}\<close> with status 200.\<close>

definition env_no_candidates :: env where
  "env_no_candidates =
     \<lparr>API_KEY = ''k'',
      transport = (\<lambda>attempt. Response 200 (Decoded (JObj [(''candidates'', JArr [])]))),
      py_str = (\<lambda>v. [])\<rparr>"

text \<open>
  A service that answers
  \<^verbatim>\<open>{"candidates": [{"content": {"role": "model"}, "finishReason": "SAFETY"}]}\<close>
  with status 200: a candidate whose content has no parts.
\<close>

definition env_no_parts :: env where
  "env_no_parts =
     \<lparr>API_KEY = ''k'',
      transport = (\<lambda>attempt. Response 200 (Decoded (JObj [(''candidates'',
         JArr [JObj [(''content'', JObj [(''role'', JStr ''model'')]),
                     (''finishReason'', JStr ''SAFETY'')]])]))),
      py_str = (\<lambda>v. [])\<rparr>"

text \<open>
  A body on which the decoding raises \<^verbatim>\<open>JSONDecodeError\<close>, read as a failed request: the
  outcome that the handler of line 101 cannot tell from it.
\<close>

fun as_request_exception :: "http_outcome \<Rightarrow> http_outcome" where
  "as_request_exception (Response status JSONDecodeError) = RequestException"
| "as_request_exception outcome = outcome"

subsection \<open>The citation list of the specification\<close>

text \<open>
  The specification speaks of a list of citations, each a title and a URI; the code
  builds the lines of the "Sources" section directly. The definitions below follow the
  specification: an attribution has the shape \<^verbatim>\<open>{"web": {"uri": ..., "title": ...}}\<close>,
  each of the three optional and the two fields strings; its citation takes the title
  \<^verbatim>\<open>Link\<close> when there is none; the list keeps the citations with a non-empty URI,
  the first of each URI, and of these the first three.
\<close>

record citation =
  cit_title :: string
  cit_uri :: string

fun web_of :: "json \<Rightarrow> (string \<times> json) list" where
  "web_of (JObj kvs) = (case map_of kvs ''web'' of Some (JObj w) \<Rightarrow> w | _ \<Rightarrow> [])"
| "web_of _ = []"

fun string_or_absent :: "json option \<Rightarrow> bool" where
  "string_or_absent None = True"
| "string_or_absent (Some (JStr s)) = True"
| "string_or_absent _ = False"

fun attribution_ok :: "json \<Rightarrow> bool" where
  "attribution_ok (JObj kvs) =
     (case map_of kvs ''web'' of
        None \<Rightarrow> True
      | Some (JObj w) \<Rightarrow>
          string_or_absent (map_of w ''uri'') \<and> string_or_absent (map_of w ''title'')
      | Some _ \<Rightarrow> False)"
| "attribution_ok _ = False"

definition citation_of :: "json \<Rightarrow> citation" where
  "citation_of source =
     \<lparr>cit_title = (case map_of (web_of source) ''title'' of Some (JStr t) \<Rightarrow> t | _ \<Rightarrow> ''Link''),
      cit_uri = (case map_of (web_of source) ''uri'' of Some (JStr u) \<Rightarrow> u | _ \<Rightarrow> [])\<rparr>"

fun first_occurrences :: "citation list \<Rightarrow> citation list" where
  "first_occurrences [] = []"
| "first_occurrences (c # cs) =
     c # first_occurrences (filter (\<lambda>d. cit_uri d \<noteq> cit_uri c) cs)"

definition spec_citations :: "json list \<Rightarrow> citation list" where
  "spec_citations sources =
     take 3 (first_occurrences (filter (\<lambda>c. cit_uri c \<noteq> []) (map citation_of sources)))"

text \<open>The line of the "Sources" section for a citation.\<close>

definition cite_entry :: "citation \<Rightarrow> string" where
  "cite_entry c = ''- ['' @ cit_title c @ '']('' @ cit_uri c @ '')\<newline>''"

text \<open>The citations not yet met, given the set \<^verbatim>\<open>unique_uris\<close> of the loop.\<close>

definition unseen :: "json set \<Rightarrow> citation \<Rightarrow> bool" where
  "unseen seen c = (cit_uri c \<noteq> [] \<and> JStr (cit_uri c) \<notin> seen)"

text \<open>
  Six attributions: two of one URI with different titles, between them one without a
  URI, then one without a title, a third URI, and a last one that would be the fourth
  citation.
\<close>

definition six_attributions :: "json list" where
  "six_attributions =
     [JObj [(''web'', JObj [(''uri'', JStr ''u1''), (''title'', JStr ''One'')])],
      JObj [(''web'', JObj [(''title'', JStr ''Nowhere'')])],
      JObj [(''web'', JObj [(''uri'', JStr ''u1''), (''title'', JStr ''Again'')])],
      JObj [(''web'', JObj [(''uri'', JStr ''u2'')])],
      JObj [(''web'', JObj [(''uri'', JStr ''u3''), (''title'', JStr ''Three'')])],
      JObj [(''web'', JObj [(''uri'', JStr ''u4''), (''title'', JStr ''Four'')])]]"

text \<open>
  A response with the answer \<^verbatim>\<open>A\<close> and one grounding attribution, which has a title
  and no URI.
\<close>

definition response_no_uri :: json where
  "response_no_uri =
     JObj [(''candidates'', JArr [JObj
       [(''content'', JObj [(''parts'', JArr [JObj [(''text'', JStr ''A'')]])]),
        (''groundingMetadata'', JObj [(''groundingAttributions'',
           JArr [JObj [(''web'', JObj [(''title'', JStr ''t'')])]])])]])]"

definition env_no_uri :: env where
  "env_no_uri =
     \<lparr>API_KEY = ''k'',
      transport = (\<lambda>attempt. Response 200 (Decoded response_no_uri)),
      py_str = (\<lambda>v. [])\<rparr>"

text \<open>
  The scenario of the specification: the answer \<^verbatim>\<open>Reduce sodium intake...\<close> with two
  grounding attributions of different URIs, the second without a title.
\<close>

definition response_diet :: json where
  "response_diet =
     JObj [(''candidates'', JArr [JObj
       [(''content'', JObj [(''parts'', JArr [JObj [(''text'', JStr ''Reduce sodium intake...'')]])]),
        (''groundingMetadata'', JObj [(''groundingAttributions'',
           JArr [JObj [(''web'', JObj [(''uri'', JStr ''https://a.example/dash''),
                                       (''title'', JStr ''DASH'')])],
                 JObj [(''web'', JObj [(''uri'', JStr ''https://b.example/salt'')])]])])]])]"

definition env_diet :: env where
  "env_diet =
     \<lparr>API_KEY = ''k'',
      transport = (\<lambda>attempt. Response 200 (Decoded response_diet)),
      py_str = (\<lambda>v. [])\<rparr>"

definition answer_diet :: string where
  "answer_diet =
     ''Reduce sodium intake...'' @ sources_header @
     ''- [DASH](https://a.example/dash)\<newline>- [Link](https://b.example/salt)\<newline>''"

definition greeting_message :: message where
  "greeting_message = \<lparr>msg_role = ''bot'', msg_text = initial_greeting\<rparr>"

section \<open>Properties of the fetcher\<close>

lemma range_max_retries: "[0..<max_retries] = [0, 1, 2]"
  by (simp add: max_retries_def upt_rec)

lemma iteration_fails:
  "attempt_fails (transport e attempt) \<Longrightarrow>
   iteration e query attempt =
     (fst (on_exception attempt), Post (api_url (API_KEY e)) query # snd (on_exception attempt))"
  by (cases "transport e attempt") (auto simp: iteration_def split: decoding.splits prod.splits)

lemma for_attempts_fails:
  "attempt_fails (transport e attempt) \<Longrightarrow>
   for_attempts e query (attempt # rest) =
     (if attempt < max_retries - 1
      then (fst (for_attempts e query rest),
            Post (api_url (API_KEY e)) query # Sleep (2 ^ attempt) # snd (for_attempts e query rest))
      else (Inr api_fail, [Post (api_url (API_KEY e)) query, StError connect_fail_message]))"
  by (simp add: iteration_fails on_exception_def split: prod.splits)

lemma three_failures:
  assumes "attempt_fails (transport e 0)" and "attempt_fails (transport e 1)"
    and "attempt_fails (transport e 2)"
  shows "for_attempts e query [0, 1, 2] =
      (Inr api_fail, [Post (api_url (API_KEY e)) query, Sleep 1,
         Post (api_url (API_KEY e)) query, Sleep 2,
         Post (api_url (API_KEY e)) query, StError connect_fail_message])"
proof -
  have "for_attempts e query [2] =
      (Inr api_fail, [Post (api_url (API_KEY e)) query, StError connect_fail_message])"
    by (subst for_attempts_fails [OF assms(3)]) (simp add: max_retries_def)
  then have "for_attempts e query [1, 2] =
      (Inr api_fail, [Post (api_url (API_KEY e)) query, Sleep 2,
         Post (api_url (API_KEY e)) query, StError connect_fail_message])"
    by (subst for_attempts_fails [OF assms(2)]) (simp add: max_retries_def)
  then show ?thesis
    by (subst for_attempts_fails [OF assms(1)]) (simp add: max_retries_def)
qed

lemma all_attempts_fail:
  assumes "API_KEY e \<noteq> []"
    and "\<forall>attempt < max_retries. attempt_fails (transport e attempt)"
  shows "get_gemini_response e query =
    (Inr api_fail,
     [Post (api_url (API_KEY e)) query, Sleep 1,
      Post (api_url (API_KEY e)) query, Sleep 2,
      Post (api_url (API_KEY e)) query, StError connect_fail_message])"
proof -
  have f: "attempt_fails (transport e 0)" "attempt_fails (transport e 1)"
    "attempt_fails (transport e 2)"
    using assms(2) by (simp_all add: max_retries_def)
  show ?thesis
    using assms(1) three_failures [OF f]
    by (simp add: get_gemini_response_def range_max_retries)
qed

lemma env_down_fails:
  "API_KEY env_down \<noteq> []"
  "\<forall>attempt < max_retries. attempt_fails (transport env_down attempt)"
  by (simp_all add: env_down_def raise_for_status_def)

text \<open>
  C4. When every attempt fails, the fetcher makes exactly three requests, sleeps
  \<open>2 ^ 0 = 1\<close> after the first and \<open>2 ^ 1 = 2\<close> after the second, does not sleep after the
  third, and returns the fixed apology \<open>api_fail\<close>.
\<close>

theorem failing_transport_three_attempts:
  assumes "API_KEY e \<noteq> []"
    and "\<forall>attempt < max_retries. attempt_fails (transport e attempt)"
  shows "get_gemini_response e query =
    (Inr api_fail,
     [Post (api_url (API_KEY e)) query, Sleep (2 ^ 0),
      Post (api_url (API_KEY e)) query, Sleep (2 ^ 1),
      Post (api_url (API_KEY e)) query, StError connect_fail_message])
    \<and> network_calls (snd (get_gemini_response e query)) = 3
    \<and> waits (snd (get_gemini_response e query)) = [Sleep 1, Sleep 2]"
  by (simp add: all_attempts_fail [OF assms] network_calls_def waits_def)

theorem failing_transport_three_attempts_witness:
  "API_KEY env_down \<noteq> [] \<and>
   attempt_fails (transport env_down 0) \<and>
   attempt_fails (transport env_down 1) \<and>
   attempt_fails (transport env_down 2) \<and>
   get_gemini_response env_down ''q'' =
    (Inr api_fail,
     [Post (api_url ''k'') ''q'', Sleep 1, Post (api_url ''k'') ''q'', Sleep 2,
      Post (api_url ''k'') ''q'', StError connect_fail_message]) \<and>
   network_calls (snd (get_gemini_response env_down ''q'')) = 3"
proof -
  have r: "get_gemini_response env_down ''q'' =
    (Inr api_fail,
     [Post (api_url ''k'') ''q'', Sleep 1, Post (api_url ''k'') ''q'', Sleep 2,
      Post (api_url ''k'') ''q'', StError connect_fail_message])"
    using failing_transport_three_attempts [OF env_down_fails, of "''q''"]
    by (simp add: env_down_def)
  show ?thesis
    unfolding r by (simp add: env_down_def raise_for_status_def network_calls_def)
qed

text \<open>
  C5. Without a configured key the fetcher returns the fixed apology at once: its only
  effect is the error message, so it makes no request and does not sleep.
\<close>

theorem missing_key_short_circuit:
  "API_KEY e = [] \<Longrightarrow>
   get_gemini_response e query = (Inr api_fail, [StError missing_key_message]) \<and>
   network_calls (snd (get_gemini_response e query)) = 0 \<and>
   waits (snd (get_gemini_response e query)) = []"
  by (simp add: get_gemini_response_def network_calls_def waits_def)

theorem missing_key_short_circuit_witness:
  "API_KEY env_no_key = [] \<and>
   get_gemini_response env_no_key ''q'' = (Inr api_fail, [StError missing_key_message]) \<and>
   network_calls (snd (get_gemini_response env_no_key ''q'')) = 0"
proof -
  have k: "API_KEY env_no_key = []"
    by (simp add: env_no_key_def)
  show ?thesis
    using k missing_key_short_circuit [OF k, of "''q''"] by (simp add: network_calls_def)
qed

section \<open>Properties of the answer and its citations\<close>

lemma set_first_occurrences: "set (first_occurrences cs) \<subseteq> set cs"
  by (induction cs rule: first_occurrences.induct) auto

lemma distinct_first_occurrences: "distinct (map cit_uri (first_occurrences cs))"
proof (induction cs rule: first_occurrences.induct)
  case 1 show ?case by simp
next
  case (2 c cs)
  have "cit_uri c \<notin> cit_uri ` set (first_occurrences (filter (\<lambda>d. cit_uri d \<noteq> cit_uri c) cs))"
    using set_first_occurrences [of "filter (\<lambda>d. cit_uri d \<noteq> cit_uri c) cs"] by auto
  with 2 show ?case by simp
qed

lemma subseq_first_occurrences: "subseq (first_occurrences cs) cs"
proof (induction cs rule: first_occurrences.induct)
  case 1 show ?case by simp
next
  case (2 c cs)
  have "subseq (filter (\<lambda>d. cit_uri d \<noteq> cit_uri c) cs) cs" by simp
  with 2 have "subseq (first_occurrences (filter (\<lambda>d. cit_uri d \<noteq> cit_uri c) cs)) cs"
    by (rule subseq_order.trans)
  then show ?case by simp
qed

lemma find_filter_weaker: "(\<And>x. P x \<Longrightarrow> Q x) \<Longrightarrow> find P (filter Q xs) = find P xs"
  by (induction xs) auto

lemma find_first_occurrences:
  "c \<in> set (first_occurrences cs) \<Longrightarrow> find (\<lambda>d. cit_uri d = cit_uri c) cs = Some c"
proof (induction cs rule: first_occurrences.induct)
  case 1 then show ?case by simp
next
  case (2 a cs)
  show ?case
  proof (cases "c = a")
    case True then show ?thesis by simp
  next
    case False
    with "2.prems" have m: "c \<in> set (first_occurrences (filter (\<lambda>d. cit_uri d \<noteq> cit_uri a) cs))"
      by simp
    with set_first_occurrences have "c \<in> set (filter (\<lambda>d. cit_uri d \<noteq> cit_uri a) cs)" by blast
    then have ne: "cit_uri c \<noteq> cit_uri a" by simp
    from "2.IH" [OF m] have "find (\<lambda>d. cit_uri d = cit_uri c) (filter (\<lambda>d. cit_uri d \<noteq> cit_uri a) cs) = Some c" .
    moreover have "find (\<lambda>d. cit_uri d = cit_uri c) (filter (\<lambda>d. cit_uri d \<noteq> cit_uri a) cs)
        = find (\<lambda>d. cit_uri d = cit_uri c) cs"
      using ne by (intro find_filter_weaker) simp
    ultimately show ?thesis using ne by simp
  qed
qed


lemma cite_line_entry:
  "cite_line str (JStr (cit_title c)) (JStr (cit_uri c)) = cite_entry c"
  by (simp add: cite_line_def cite_entry_def)

lemma uri_field_ok:
  assumes "attribution_ok s"
  shows "\<exists>u. web_field s ''uri'' JNull = Inr u \<and>
             truthy u = (cit_uri (citation_of s) \<noteq> []) \<and>
             (truthy u \<longrightarrow> u = JStr (cit_uri (citation_of s)))"
proof (cases s)
  case (JObj kvs)
  show ?thesis
  proof (cases "map_of kvs ''web''")
    case None
    with JObj show ?thesis
      by (simp add: web_field_def then_res_def citation_of_def)
  next
    case (Some w)
    with JObj assms obtain wkvs where w: "w = JObj wkvs"
      by (cases w) simp_all
    with JObj Some assms have "string_or_absent (map_of wkvs ''uri'')" by simp
    then show ?thesis
      using JObj Some w
      by (cases "map_of wkvs ''uri''" rule: string_or_absent.cases)
         (simp_all add: web_field_def then_res_def citation_of_def)
  qed
qed (use assms in simp_all)

lemma title_field_ok:
  assumes "attribution_ok s"
  shows "web_field s ''title'' (JStr ''Link'') = Inr (JStr (cit_title (citation_of s)))"
proof (cases s)
  case (JObj kvs)
  show ?thesis
  proof (cases "map_of kvs ''web''")
    case None
    with JObj show ?thesis
      by (simp add: web_field_def then_res_def citation_of_def)
  next
    case (Some w)
    with JObj assms obtain wkvs where w: "w = JObj wkvs"
      by (cases w) simp_all
    with JObj Some assms have "string_or_absent (map_of wkvs ''title'')" by simp
    then show ?thesis
      using JObj Some w
      by (cases "map_of wkvs ''title''" rule: string_or_absent.cases)
         (simp_all add: web_field_def then_res_def citation_of_def)
  qed
qed (use assms in simp_all)

lemma filter_unseen_insert:
  "filter (\<lambda>d. cit_uri d \<noteq> cit_uri c) (filter (unseen seen) cs)
     = filter (unseen (insert (JStr (cit_uri c)) seen)) cs"
  by (induction cs) (auto simp: unseen_def)

lemma cite_loop_seen:
  assumes "\<forall>s \<in> set srcs. attribution_ok s" and "finite seen" and "card seen < 3"
  shows "cite_loop str srcs acc seen =
     Inr (acc @ concat (map cite_entry
       (take (3 - card seen) (first_occurrences (filter (unseen seen) (map citation_of srcs))))))"
  using assms
proof (induction srcs arbitrary: acc seen)
  case Nil
  show ?case by simp
next
  case (Cons s rest)
  let ?c = "citation_of s"
  have ok: "attribution_ok s" and oks: "\<forall>s \<in> set rest. attribution_ok s"
    using Cons.prems(1) by simp_all
  from uri_field_ok [OF ok] obtain u where
    u: "web_field s ''uri'' JNull = Inr u" and
    tu: "truthy u = (cit_uri ?c \<noteq> [])" and
    su: "truthy u \<longrightarrow> u = JStr (cit_uri ?c)" by blast
  note t = title_field_ok [OF ok]
  show ?case
  proof (cases "unseen seen ?c")
    case False
    then have "cite_loop str (s # rest) acc seen = cite_loop str rest acc seen"
      using u tu su t by (auto simp: then_res_def unseen_def)
    with False Cons.IH [OF oks Cons.prems(2,3)] show ?thesis by simp
  next
    case True
    then have ne: "cit_uri ?c \<noteq> []" and new: "JStr (cit_uri ?c) \<notin> seen"
      by (simp_all add: unseen_def)
    then have ue: "u = JStr (cit_uri ?c)"
      using tu su by simp
    have card_ins: "card (insert (JStr (cit_uri ?c)) seen) = Suc (card seen)"
      using new Cons.prems(2) by simp
    have fo: "first_occurrences (filter (unseen seen) (map citation_of (s # rest)))
        = ?c # first_occurrences (filter (unseen (insert (JStr (cit_uri ?c)) seen)) (map citation_of rest))"
      using True by (simp add: filter_unseen_insert del: filter_filter)
    show ?thesis
    proof (cases "3 \<le> Suc (card seen)")
      case True
      with Cons.prems(3) have "3 - card seen = Suc 0" by simp
      then have rhs: "take (3 - card seen)
          (first_occurrences (filter (unseen seen) (map citation_of (s # rest)))) = [?c]"
        unfolding fo by simp
      have lhs: "cite_loop str (s # rest) acc seen = Inr (acc @ cite_entry ?c)"
        using u t ue ne new card_ins True by (simp add: then_res_def cite_line_entry)
      show ?thesis unfolding lhs rhs by simp
    next
      case False
      then have lt: "card (insert (JStr (cit_uri ?c)) seen) < 3"
        using card_ins by simp
      have fin: "finite (insert (JStr (cit_uri ?c)) seen)"
        using Cons.prems(2) by simp
      from False have "3 - card seen = Suc (3 - Suc (card seen))" by simp
      then have rhs: "take (3 - card seen)
          (first_occurrences (filter (unseen seen) (map citation_of (s # rest))))
        = ?c # take (3 - card (insert (JStr (cit_uri ?c)) seen))
            (first_occurrences (filter (unseen (insert (JStr (cit_uri ?c)) seen)) (map citation_of rest)))"
        unfolding fo card_ins by simp
      have lhs: "cite_loop str (s # rest) acc seen =
          cite_loop str rest (acc @ cite_entry ?c) (insert (JStr (cit_uri ?c)) seen)"
        using u t ue ne new card_ins False by (simp add: then_res_def cite_line_entry)
      show ?thesis
        unfolding lhs rhs Cons.IH [OF oks fin lt] by simp
    qed
  qed
qed



lemma extract_no_uri: "extract_answer str response_no_uri = Inr (Some (''A'' @ sources_header))"
  by (simp add: response_no_uri_def extract_answer_def candidate_of_def answer_text_def
      grounding_sources_def build_citations_def web_field_def then_res_def)

lemma cite_loop_spec:
  assumes "\<forall>s \<in> set sources. attribution_ok s"
  shows "cite_loop str sources acc {} = Inr (acc @ concat (map cite_entry (spec_citations sources)))"
proof -
  have "unseen {} = (\<lambda>c. cit_uri c \<noteq> [])"
    by (rule ext) (simp add: unseen_def)
  with cite_loop_seen [OF assms, of "{}" str acc] show ?thesis
    by (simp add: spec_citations_def)
qed

lemma spec_citations_in:
  "set (spec_citations sources) \<subseteq> set (first_occurrences (filter (\<lambda>c. cit_uri c \<noteq> []) (map citation_of sources)))"
  unfolding spec_citations_def by (rule set_take_subset)

lemma spec_citations_first:
  assumes "c \<in> set (spec_citations sources)"
  shows "cit_uri c \<noteq> [] \<and> find (\<lambda>d. cit_uri d = cit_uri c) (map citation_of sources) = Some c"
proof -
  let ?ne = "\<lambda>c. cit_uri c \<noteq> []"
  from assms spec_citations_in
  have m: "c \<in> set (first_occurrences (filter ?ne (map citation_of sources)))" by blast
  with set_first_occurrences have "c \<in> set (filter ?ne (map citation_of sources))" by blast
  then have ne: "cit_uri c \<noteq> []" by simp
  have "find (\<lambda>d. cit_uri d = cit_uri c) (filter ?ne (map citation_of sources))
      = find (\<lambda>d. cit_uri d = cit_uri c) (map citation_of sources)"
    using ne by (intro find_filter_weaker) simp
  with find_first_occurrences [OF m] ne show ?thesis by simp
qed

lemma spec_citations_subseq: "subseq (spec_citations sources) (map citation_of sources)"
proof -
  let ?ne = "\<lambda>c. cit_uri c \<noteq> []"
  have "subseq (spec_citations sources) (first_occurrences (filter ?ne (map citation_of sources)))"
    unfolding spec_citations_def
    by (metis append_take_drop_id list_emb_prefix subseq_order.order_refl)
  also have "subseq \<dots> (filter ?ne (map citation_of sources))"
    by (rule subseq_first_occurrences)
  also have "subseq \<dots> (map citation_of sources)" by simp
  finally show ?thesis .
qed

lemma spec_citations_distinct: "distinct (map cit_uri (spec_citations sources))"
  unfolding spec_citations_def take_map [symmetric]
  by (rule distinct_take) (rule distinct_first_occurrences)

lemma six_ok: "\<forall>s \<in> set six_attributions. attribution_ok s"
  by (simp add: six_attributions_def)

lemma six_spec: "spec_citations six_attributions =
    [\<lparr>cit_title = ''One'', cit_uri = ''u1''\<rparr>, \<lparr>cit_title = ''Link'', cit_uri = ''u2''\<rparr>,
     \<lparr>cit_title = ''Three'', cit_uri = ''u3''\<rparr>]"
  by (simp add: six_attributions_def spec_citations_def citation_of_def)

lemma header_alone:
  assumes "\<forall>s \<in> set sources. attribution_ok s" and "sources \<noteq> []"
    and "\<forall>s \<in> set sources. cit_uri (citation_of s) = []"
  shows "build_citations str (JArr sources) = Inr sources_header"
proof -
  have "filter (\<lambda>c. cit_uri c \<noteq> []) (map citation_of sources) = []"
    using assms(3) by (simp add: filter_empty_conv)
  then have "spec_citations sources = []"
    by (simp add: spec_citations_def)
  with assms(2) cite_loop_spec [OF assms(1), of str sources_header] show ?thesis
    by (simp add: build_citations_def then_res_def)
qed

text \<open>
  C3, at the failing input. The service answers with the text \<^verbatim>\<open>A\<close> and one grounding
  attribution, which has a title and no URI. No citation is extracted, and the answer
  is not returned unmodified: line 86 has set the header of the "Sources" section
  before the loop looks at any attribution, so the fetcher returns the text followed
  by the header alone.
\<close>

theorem header_without_citations:
  "get_gemini_response env_no_uri ''q'' = (Inr (''A'' @ sources_header), [Post (api_url ''k'') ''q''])
   \<and> spec_citations [JObj [(''web'', JObj [(''title'', JStr ''t'')])]] = []
   \<and> ''A'' @ sources_header \<noteq> ''A''"
  by (simp add: get_gemini_response_def range_max_retries env_no_uri_def iteration_def
      raise_for_status_def extract_no_uri spec_citations_def citation_of_def sources_header_def)

text \<open>
  C6. For every list of grounding attributions of the expected shape, the lines that
  the loop appends are the lines of the citation list of the specification, in its
  order. That list has at most three entries, no URI twice, no empty URI, is in the
  order of the attributions, holds for each of its URIs the first attribution with that
  URI, and an attribution without a title gets the title \<^verbatim>\<open>Link\<close>.
\<close>

theorem citations_as_specified:
  assumes "\<forall>s \<in> set sources. attribution_ok s"
  shows "build_citations str (JArr sources) =
           Inr (if sources = [] then []
                else sources_header @ concat (map cite_entry (spec_citations sources)))
       \<and> length (spec_citations sources) \<le> 3
       \<and> distinct (map cit_uri (spec_citations sources))
       \<and> subseq (spec_citations sources) (map citation_of sources)
       \<and> (\<forall>c \<in> set (spec_citations sources).
            cit_uri c \<noteq> [] \<and>
            find (\<lambda>d. cit_uri d = cit_uri c) (map citation_of sources) = Some c)
       \<and> (\<forall>s \<in> set sources.
            map_of (web_of s) ''title'' = None \<longrightarrow> cit_title (citation_of s) = ''Link'')"
proof -
  have "build_citations str (JArr sources) =
           Inr (if sources = [] then []
                else sources_header @ concat (map cite_entry (spec_citations sources)))"
    by (simp add: build_citations_def then_res_def cite_loop_spec [OF assms])
  moreover have "length (spec_citations sources) \<le> 3"
    by (simp add: spec_citations_def)
  moreover have "\<forall>s \<in> set sources.
      map_of (web_of s) ''title'' = None \<longrightarrow> cit_title (citation_of s) = ''Link''"
    by (simp add: citation_of_def)
  ultimately show ?thesis
    using spec_citations_distinct spec_citations_subseq spec_citations_first by blast
qed

theorem citations_as_specified_witness:
  "list_all attribution_ok six_attributions \<and>
   build_citations (\<lambda>v. []) (JArr six_attributions) =
     Inr (sources_header @ ''- [One](u1)\<newline>- [Link](u2)\<newline>- [Three](u3)\<newline>'') \<and>
   spec_citations six_attributions =
     [\<lparr>cit_title = ''One'', cit_uri = ''u1''\<rparr>, \<lparr>cit_title = ''Link'', cit_uri = ''u2''\<rparr>,
      \<lparr>cit_title = ''Three'', cit_uri = ''u3''\<rparr>]"
  using six_ok citations_as_specified [OF six_ok, of "\<lambda>v. []"]
  by (simp add: six_spec cite_entry_def list_all_iff) (simp add: six_attributions_def)

section \<open>Responses without an answer\<close>

text \<open>
  The iterations that neither return nor sleep: the body is decoded and the condition
  of line 75 is false. After three of them line 111 returns the placeholder.
\<close>

lemma extract_no_candidates_key:
  "map_of kvs ''candidates'' = None \<Longrightarrow> extract_answer str (JObj kvs) = Inr None"
  by (simp add: extract_answer_def candidate_of_def answer_text_def then_res_def)

lemma extract_no_content:
  "map_of kvs ''candidates'' = Some (JArr (JObj c # cs)) \<Longrightarrow> map_of c ''content'' = None \<Longrightarrow>
   extract_answer str (JObj kvs) = Inr None"
  by (simp add: extract_answer_def candidate_of_def answer_text_def then_res_def)

lemma extract_empty_parts:
  "map_of kvs ''candidates'' = Some (JArr (JObj c # cs)) \<Longrightarrow>
   map_of c ''content'' = Some (JObj k) \<Longrightarrow> map_of k ''parts'' = Some (JArr []) \<Longrightarrow>
   extract_answer str (JObj kvs) = Inr None"
  by (simp add: extract_answer_def candidate_of_def answer_text_def then_res_def)

lemma iteration_without_answer:
  "transport e attempt = Response status (Decoded result) \<Longrightarrow> \<not> raise_for_status status \<Longrightarrow>
   extract_answer (py_str e) result = Inr None \<Longrightarrow>
   iteration e query attempt = (Continue, [Post (api_url (API_KEY e)) query])"
  by (simp add: iteration_def)

lemma three_without_answer:
  assumes "API_KEY e \<noteq> []"
    and "\<forall>attempt < max_retries. \<exists>status result.
           transport e attempt = Response status (Decoded result) \<and> \<not> raise_for_status status \<and>
           extract_answer (py_str e) result = Inr None"
  shows "get_gemini_response e query =
    (Inr placeholder_fail,
     [Post (api_url (API_KEY e)) query, Post (api_url (API_KEY e)) query,
      Post (api_url (API_KEY e)) query])"
proof -
  have "\<forall>attempt < max_retries.
      iteration e query attempt = (Continue, [Post (api_url (API_KEY e)) query])"
    using assms(2) iteration_without_answer by blast
  then have "iteration e query 0 = (Continue, [Post (api_url (API_KEY e)) query])"
    "iteration e query (Suc 0) = (Continue, [Post (api_url (API_KEY e)) query])"
    "iteration e query 2 = (Continue, [Post (api_url (API_KEY e)) query])"
    by (simp_all add: max_retries_def)
  then show ?thesis
    using assms(1) by (simp add: get_gemini_response_def range_max_retries)
qed

lemma env_shapeless_without_answer:
  "API_KEY env_shapeless \<noteq> []"
  "\<forall>attempt < max_retries. \<exists>status result.
     transport env_shapeless attempt = Response status (Decoded result) \<and>
     \<not> raise_for_status status \<and> extract_answer (py_str env_shapeless) result = Inr None"
  by (simp_all add: env_shapeless_def raise_for_status_def extract_no_candidates_key)

lemma iteration_as_request_exception:
  "iteration (e\<lparr>transport := \<lambda>attempt. as_request_exception (transport e attempt)\<rparr>) query attempt
     = iteration e query attempt"
  by (cases "transport e attempt" rule: as_request_exception.cases) (simp_all add: iteration_def)

lemma for_attempts_as_request_exception:
  "for_attempts (e\<lparr>transport := \<lambda>attempt. as_request_exception (transport e attempt)\<rparr>) query attempts
     = for_attempts e query attempts"
  by (induction attempts)
     (simp_all add: iteration_as_request_exception split: prod.splits step.splits)

lemma undecodable_fails:
  "transport e attempt = Response status JSONDecodeError \<Longrightarrow> attempt_fails (transport e attempt)"
  by simp

lemma iteration_decoded:
  "transport e attempt = Response status (Decoded result) \<Longrightarrow> \<not> raise_for_status status \<Longrightarrow>
   snd (iteration e query attempt) = [Post (api_url (API_KEY e)) query]"
  by (simp add: iteration_def split: sum.splits option.splits)

lemma for_attempts_posts:
  "\<forall>attempt \<in> set attempts. snd (iteration e query attempt) = [Post (api_url (API_KEY e)) query] \<Longrightarrow>
   list_all is_post (snd (for_attempts e query attempts))"
  by (induction attempts) (auto split: prod.splits step.splits)

lemma post_not_sleep: "is_post ev \<Longrightarrow> \<not> is_sleep ev"
  by (cases ev) simp_all

lemma posts_no_waits: "list_all is_post evs \<Longrightarrow> waits evs = []"
  by (induction evs) (simp_all add: waits_def post_not_sleep)

lemma iteration_decoding_raises:
  "transport e attempt = Response status (DecodingRaises err) \<Longrightarrow> \<not> raise_for_status status \<Longrightarrow>
   iteration e query attempt = (Raise err, [Post (api_url (API_KEY e)) query])"
  by (simp add: iteration_def)

text \<open>
  C2, as stated, fails: a body that is decoded and lacks the expected shape is not
  treated as a transport error. Here every attempt is answered \<^verbatim>\<open>{}\<close>: the fetcher
  makes its three requests without a sleep between them and returns the placeholder,
  not the apology.
\<close>

theorem shapeless_body_not_retried_with_backoff:
  "get_gemini_response env_shapeless ''q'' =
     (Inr placeholder_fail,
      [Post (api_url ''k'') ''q'', Post (api_url ''k'') ''q'', Post (api_url ''k'') ''q''])
   \<and> waits (snd (get_gemini_response env_shapeless ''q'')) = []
   \<and> placeholder_fail \<noteq> api_fail"
  by (simp add: three_without_answer [OF env_shapeless_without_answer] waits_def)
     (simp add: env_shapeless_def placeholder_fail_def api_fail_def)

text \<open>
  C2, amended. For every response body on which the decoding raises
  \<^verbatim>\<open>JSONDecodeError\<close>, the fetcher treats it identically to a transport error: with
  these bodies replaced by failed requests the call gives the same result and the same
  effects, so the attempt is retried with backoff, and when all three bodies are such
  the fixed apology is returned after sleeps of 1 and 2. A body that is decoded is never
  treated as a transport error, whatever its shape: the only effect of its iteration is
  the request, and when all three bodies are decoded the call makes requests only, with
  no sleep and no report of a failure.
\<close>

theorem json_decode_error_as_transport_error:
  "get_gemini_response
     (e\<lparr>transport := \<lambda>attempt. as_request_exception (transport e attempt)\<rparr>) query
     = get_gemini_response e query
   \<and> (API_KEY e \<noteq> [] \<longrightarrow>
      (\<forall>attempt < max_retries. \<exists>status. transport e attempt = Response status JSONDecodeError) \<longrightarrow>
      get_gemini_response e query =
        (Inr api_fail,
         [Post (api_url (API_KEY e)) query, Sleep 1,
          Post (api_url (API_KEY e)) query, Sleep 2,
          Post (api_url (API_KEY e)) query, StError connect_fail_message]))
   \<and> (\<forall>attempt status result.
        transport e attempt = Response status (Decoded result) \<longrightarrow> \<not> raise_for_status status \<longrightarrow>
        snd (iteration e query attempt) = [Post (api_url (API_KEY e)) query])
   \<and> (API_KEY e \<noteq> [] \<longrightarrow>
      (\<forall>attempt < max_retries. \<exists>status result.
         transport e attempt = Response status (Decoded result) \<and> \<not> raise_for_status status) \<longrightarrow>
      list_all is_post (snd (get_gemini_response e query)) \<and>
      waits (snd (get_gemini_response e query)) = [])"
proof (intro conjI impI allI)
  show "get_gemini_response
     (e\<lparr>transport := \<lambda>attempt. as_request_exception (transport e attempt)\<rparr>) query
     = get_gemini_response e query"
    by (simp add: get_gemini_response_def for_attempts_as_request_exception)
next
  assume k: "API_KEY e \<noteq> []"
    and u: "\<forall>attempt < max_retries. \<exists>status. transport e attempt = Response status JSONDecodeError"
  from u have "\<forall>attempt < max_retries. attempt_fails (transport e attempt)"
    using undecodable_fails by blast
  with k show "get_gemini_response e query =
        (Inr api_fail,
         [Post (api_url (API_KEY e)) query, Sleep 1,
          Post (api_url (API_KEY e)) query, Sleep 2,
          Post (api_url (API_KEY e)) query, StError connect_fail_message])"
    by (rule all_attempts_fail)
next
  fix attempt status result
  assume "transport e attempt = Response status (Decoded result)" and "\<not> raise_for_status status"
  then show "snd (iteration e query attempt) = [Post (api_url (API_KEY e)) query]"
    by (rule iteration_decoded)
next
  assume k: "API_KEY e \<noteq> []"
    and d: "\<forall>attempt < max_retries. \<exists>status result.
         transport e attempt = Response status (Decoded result) \<and> \<not> raise_for_status status"
  have "\<forall>attempt \<in> set [0..<max_retries].
      snd (iteration e query attempt) = [Post (api_url (API_KEY e)) query]"
    using d iteration_decoded by fastforce
  then have p: "list_all is_post (snd (for_attempts e query [0..<max_retries]))"
    by (rule for_attempts_posts)
  with k show "list_all is_post (snd (get_gemini_response e query))"
    by (simp add: get_gemini_response_def)
  then show "waits (snd (get_gemini_response e query)) = []"
    by (rule posts_no_waits)
qed

theorem json_decode_error_as_transport_error_witness:
  "API_KEY env_garbled \<noteq> [] \<and>
   transport env_garbled 0 = Response 200 JSONDecodeError \<and>
   transport env_garbled 1 = Response 200 JSONDecodeError \<and>
   transport env_garbled 2 = Response 200 JSONDecodeError \<and>
   get_gemini_response env_garbled ''q'' =
     (Inr api_fail,
      [Post (api_url ''k'') ''q'', Sleep 1, Post (api_url ''k'') ''q'', Sleep 2,
       Post (api_url ''k'') ''q'', StError connect_fail_message]) \<and>
   get_gemini_response
     (env_garbled\<lparr>transport := \<lambda>attempt. as_request_exception (transport env_garbled attempt)\<rparr>)
     ''q'' = get_gemini_response env_garbled ''q'' \<and>
   API_KEY env_shapeless \<noteq> [] \<and>
   transport env_shapeless 0 = Response 200 (Decoded (JObj [])) \<and>
   transport env_shapeless 1 = Response 200 (Decoded (JObj [])) \<and>
   transport env_shapeless 2 = Response 200 (Decoded (JObj [])) \<and>
   \<not> raise_for_status 200 \<and>
   snd (iteration env_shapeless ''q'' 0) = [Post (api_url ''k'') ''q''] \<and>
   list_all is_post (snd (get_gemini_response env_shapeless ''q'')) \<and>
   waits (snd (get_gemini_response env_shapeless ''q'')) = []"
proof -
  have k: "API_KEY env_garbled \<noteq> []"
    by (simp add: env_garbled_def)
  have u: "\<forall>attempt < max_retries. \<exists>status.
      transport env_garbled attempt = Response status JSONDecodeError"
    by (simp add: env_garbled_def)
  have k': "API_KEY env_shapeless \<noteq> []"
    by (simp add: env_shapeless_def)
  have t: "transport env_shapeless 0 = Response 200 (Decoded (JObj []))"
    by (simp add: env_shapeless_def)
  have s: "\<not> raise_for_status 200"
    by (simp add: raise_for_status_def)
  have d: "\<forall>attempt < max_retries. \<exists>status result.
      transport env_shapeless attempt = Response status (Decoded result) \<and>
      \<not> raise_for_status status"
    by (simp add: env_shapeless_def raise_for_status_def)
  note g = json_decode_error_as_transport_error [of env_garbled "''q''"]
  note h = json_decode_error_as_transport_error [of env_shapeless "''q''"]
  have g1: "get_gemini_response
     (env_garbled\<lparr>transport := \<lambda>attempt. as_request_exception (transport env_garbled attempt)\<rparr>)
     ''q'' = get_gemini_response env_garbled ''q''"
    using g by blast
  have g2: "get_gemini_response env_garbled ''q'' =
     (Inr api_fail,
      [Post (api_url ''k'') ''q'', Sleep 1, Post (api_url ''k'') ''q'', Sleep 2,
       Post (api_url ''k'') ''q'', StError connect_fail_message])"
    using g k u by (simp add: env_garbled_def)
  have h3: "snd (iteration env_shapeless ''q'' 0) = [Post (api_url ''k'') ''q'']"
    using h t s by (simp add: env_shapeless_def)
  have h4: "list_all is_post (snd (get_gemini_response env_shapeless ''q'')) \<and>
     waits (snd (get_gemini_response env_shapeless ''q'')) = []"
    using h k' d by blast
  show ?thesis
    using k k' s g1 g2 h3 h4 by (simp add: env_shapeless_def env_garbled_def)
qed

text \<open>
  C8, at the failing input. The service answers \<^verbatim>\<open>{"candidates": []}\<close> with status 200:
  a well-formed response in which there is no answer text. The fetcher does not return
  the placeholder: \<^verbatim>\<open>[0]\<close> of line 73 raises \<^verbatim>\<open>IndexError\<close>, which the handler of
  line 101 does not name, so the exception leaves \<^verbatim>\<open>get_gemini_response\<close> after the
  first request, and \<^verbatim>\<open>process_query\<close> with it, the user's message appended and no
  reply to it.
\<close>

theorem empty_candidates_raises:
  "get_gemini_response env_no_candidates ''q'' = (Inl IndexError, [Post (api_url ''k'') ''q''])
   \<and> process_query env_no_candidates ''q'' [greeting_message] =
       (Inl IndexError,
        [greeting_message, \<lparr>msg_role = ''user'', msg_text = ''q''\<rparr>],
        [Post (api_url ''k'') ''q''])"
proof -
  have "get_gemini_response env_no_candidates ''q'' =
      (Inl IndexError, [Post (api_url ''k'') ''q''])"
    by (simp add: get_gemini_response_def range_max_retries env_no_candidates_def iteration_def
        raise_for_status_def extract_answer_def candidate_of_def then_res_def)
  then show ?thesis
    by (simp add: process_query_def)
qed

text \<open>
  C9, at the failing input. The service answers with status 200 and a first candidate
  whose content has no parts,
  \<^verbatim>\<open>{"candidates": [{"content": {"role": "model"}, "finishReason": "SAFETY"}]}\<close>.
  The iteration does not go on to the next request: \<^verbatim>\<open>candidate['content']['parts']\<close> of
  line 75 raises \<^verbatim>\<open>KeyError\<close>, which the handler of line 101 does not name, so the
  exception leaves \<^verbatim>\<open>get_gemini_response\<close> after the first request and the placeholder
  is not returned.
\<close>

theorem content_without_parts_raises:
  "get_gemini_response env_no_parts ''q'' = (Inl KeyError, [Post (api_url ''k'') ''q''])
   \<and> network_calls (snd (get_gemini_response env_no_parts ''q'')) = 1"
proof -
  have "get_gemini_response env_no_parts ''q'' = (Inl KeyError, [Post (api_url ''k'') ''q''])"
    by (simp add: get_gemini_response_def range_max_retries env_no_parts_def iteration_def
        raise_for_status_def extract_answer_def candidate_of_def answer_text_def then_res_def)
  then show ?thesis
    by (simp add: network_calls_def)
qed

section \<open>Properties of the chat session\<close>

lemma process_query_extends:
  "\<exists>added. fst (snd (process_query e user_query msgs)) = msgs @ added"
  by (auto simp: process_query_def Let_def split: prod.splits sum.splits)

lemma app_extends: "\<exists>added. app e submitted stored = Some (init_messages stored @ added)"
proof (cases submitted)
  case None
  then show ?thesis by (simp add: app_def)
next
  case (Some q)
  from process_query_extends [of e q "init_messages stored"] show ?thesis
    using Some by (auto simp: app_def)
qed

lemma init_messages_greeting:
  "stored = None \<or> (\<exists>rest. stored = Some (greeting_message # rest)) \<Longrightarrow>
   \<exists>rest. init_messages stored = greeting_message # rest"
  by (auto simp: init_messages_def greeting_message_def)

lemma session_greeting:
  "session runs = None \<or> (\<exists>rest. session runs = Some (greeting_message # rest))"
proof (induction runs rule: rev_induct)
  case Nil
  then show ?case by (simp add: session_def)
next
  case (snoc r runs)
  from init_messages_greeting [OF snoc.IH] obtain rest
    where i: "init_messages (session runs) = greeting_message # rest" by blast
  from app_extends [of "fst r" "snd r" "session runs"] obtain added
    where "app (fst r) (snd r) (session runs) = Some (init_messages (session runs) @ added)"
    by blast
  with i have "session (runs @ [r]) = Some (greeting_message # (rest @ added))"
    by (simp add: session_def)
  then show ?case by blast
qed

lemma diet_response:
  "get_gemini_response env_diet query = (Inr answer_diet, [Post (api_url ''k'') query])"
  by (simp add: get_gemini_response_def range_max_retries env_diet_def iteration_def
      raise_for_status_def response_diet_def extract_answer_def candidate_of_def answer_text_def
      grounding_sources_def build_citations_def web_field_def cite_line_def then_res_def
      answer_diet_def)

text \<open>
  C1, as stated, fails: a string of whitespace is not empty, the test of line 148 lets it
  pass, and the query is processed as any other. Here a single space is submitted to a
  session that holds the greeting: two messages are appended and three requests are made.
\<close>

theorem whitespace_query_is_processed:
  "process_query env_down '' '' [greeting_message] =
     (Inr (),
      [greeting_message, \<lparr>msg_role = ''user'', msg_text = '' ''\<rparr>,
       \<lparr>msg_role = ''bot'', msg_text = api_fail\<rparr>],
      [Post (api_url ''k'') '' '', Sleep 1, Post (api_url ''k'') '' '', Sleep 2,
       Post (api_url ''k'') '' '', StError connect_fail_message])
   \<and> network_calls (snd (snd (process_query env_down '' '' [greeting_message]))) = 3"
  by (simp add: process_query_def all_attempts_fail [OF env_down_fails] network_calls_def)
     (simp add: env_down_def)

text \<open>
  C1, amended. For the empty input string, submitting it is a no-op: no message is
  appended and the call has no effect, so no request is made.
\<close>

theorem empty_query_is_noop:
  "process_query e [] msgs = (Inr (), msgs, []) \<and>
   network_calls (snd (snd (process_query e [] msgs))) = 0"
  by (simp add: process_query_def network_calls_def)

text \<open>
  C7. For every non-empty query for which \<^verbatim>\<open>get_gemini_response\<close> returns, the list
  of messages grows by exactly two, the user's message and then the reply, after the
  messages it held, which are unchanged and in their order.
\<close>

theorem resolved_query_appends_two:
  assumes "user_query \<noteq> []"
    and "get_gemini_response e user_query = (Inr response, evs)"
  shows "process_query e user_query msgs =
     (Inr (),
      msgs @ [\<lparr>msg_role = ''user'', msg_text = user_query\<rparr>,
              \<lparr>msg_role = ''bot'', msg_text = response\<rparr>],
      evs)
   \<and> length (fst (snd (process_query e user_query msgs))) = length msgs + 2
   \<and> take (length msgs) (fst (snd (process_query e user_query msgs))) = msgs"
  using assms by (simp add: process_query_def)

theorem resolved_query_appends_two_witness:
  "suggestions ! 0 \<noteq> [] \<and>
   get_gemini_response env_diet (suggestions ! 0) =
     (Inr answer_diet, [Post (api_url ''k'') (suggestions ! 0)]) \<and>
   process_query env_diet (suggestions ! 0) [greeting_message] =
     (Inr (),
      [greeting_message, \<lparr>msg_role = ''user'', msg_text = suggestions ! 0\<rparr>,
       \<lparr>msg_role = ''bot'', msg_text = answer_diet\<rparr>],
      [Post (api_url ''k'') (suggestions ! 0)])"
proof -
  have n: "suggestions ! 0 \<noteq> []"
    by (simp add: suggestions_def)
  show ?thesis
    using n diet_response [of "suggestions ! 0"]
      resolved_query_appends_two [OF n diet_response, of "[greeting_message]"]
    by simp
qed

text \<open>
  C10. On a fresh session the initialisation leaves exactly one message, from the bot,
  with the fixed greeting. In every later run of \<^verbatim>\<open>app\<close> the list of messages after the
  initialisation, which is the list that \<^verbatim>\<open>process_query\<close> receives, begins with that
  message.
\<close>

theorem greeting_before_any_query:
  "init_messages None = [\<lparr>msg_role = ''bot'', msg_text = initial_greeting\<rparr>] \<and>
   (\<forall>runs. \<exists>rest.
      init_messages (session runs) = \<lparr>msg_role = ''bot'', msg_text = initial_greeting\<rparr> # rest)"
  using init_messages_greeting [OF session_greeting]
  by (simp add: init_messages_def greeting_message_def)


end
